theory Spec2Isabelle
  imports Complex_Main "HOL-Library.Sublist" "HOL-Library.Word"
begin

section \<open>Values, arrays and errors\<close>

text \<open>
  The module \<^verbatim>\<open>predictions/prediction.py\<close> stores two sequences and computes accuracy
  metrics from them. A constructor argument is a Python list, a numpy array or a pandas
  Series; after construction every stored sequence is a numpy array or a Series
  (\<^verbatim>\<open>_lists_to_nparray\<close>). A numpy array is the list of its elements. A Series is the
  list of its rows, each an index label with a value; labels are integers here, and a
  Series made without an index has the labels 0, 1, 2 and so on. \<^verbatim>\<open>real_values\<close> may be
  the Python value \<^verbatim>\<open>None\<close>, modelled by \<open>None\<close> of an option type. Elements are
  compared with \<open>=\<close>: the element types meant are those whose \<^verbatim>\<open>==\<close> is equality of
  values (integers, strings, booleans).
\<close>

type_synonym label = int

datatype 'a array = NdArray "'a list" | Series "(label \<times> 'a) list"

datatype 'a array_like = PyList "'a list" | Array "'a array"

fun elems :: "'a array \<Rightarrow> 'a list" where
  "elems (NdArray xs) = xs"
| "elems (Series rows) = map snd rows"

fun items :: "'a array_like \<Rightarrow> 'a list" where
  "items (PyList xs) = xs"
| "items (Array a) = elems a"

definition len :: "'a array_like \<Rightarrow> nat" where
  "len v = length (items v)"

datatype error = ValueError string | TypeError | IndexError | KeyError | AttributeError

text \<open>The result of a float64 computation: a number (kept exact), or one of the two
  sentinels that numpy produces silently when a count is divided by zero.\<close>

datatype np_float = Finite rat | NaN | PosInf

section \<open>Decimal text of a length, as an f-string prints it\<close>

definition digit_char :: "nat \<Rightarrow> char" where
  "digit_char d = ''0123456789'' ! d"

fun str_nat :: "nat \<Rightarrow> string" where
  "str_nat n = (if n < 10 then [digit_char n] else str_nat (n div 10) @ [digit_char (n mod 10)])"

declare str_nat.simps [simp del]

section \<open>Prediction\<close>

record 'a prediction =
  fitted_values :: "'a array"
  real_values :: "'a array option"

definition length_message :: "nat \<Rightarrow> nat \<Rightarrow> string" where
  "length_message len_fit len_real =
     ''Fitted values and real values must have the same length.'' @ [CHR 0x0A]
     @ ''Fitted values has length: '' @ str_nat len_fit @ ''.'' @ [CHR 0x0A]
     @ ''Real values has length: '' @ str_nat len_real @ ''.''"

definition check_lengths_match :: "'a array_like \<Rightarrow> 'a array_like option \<Rightarrow> error + unit" where
  "check_lengths_match fv rv =
     (case rv of
        None \<Rightarrow> Inr ()
      | Some r \<Rightarrow>
          (let len_fit = len fv; len_real = len r
           in if len_fit \<noteq> len_real then Inl (ValueError (length_message len_fit len_real))
              else Inr ()))"

fun lists_to_nparray :: "'a array_like \<Rightarrow> 'a array" where
  "lists_to_nparray (PyList xs) = NdArray xs"
| "lists_to_nparray (Array a) = a"

definition Prediction_init :: "'a array_like \<Rightarrow> 'a array_like option \<Rightarrow> error + 'a prediction" where
  "Prediction_init fv rv =
     (case check_lengths_match fv rv of
        Inl e \<Rightarrow> Inl e
      | Inr _ \<Rightarrow> Inr \<lparr>fitted_values = lists_to_nparray fv,
                      real_values = map_option lists_to_nparray rv\<rparr>)"

subsection \<open>Elementwise operations of numpy and pandas\<close>

text \<open>An operator between a numpy array and anything else pairs the elements by
  position. Between two Series it pairs them by position only when the two indexes are
  equal, label for label; otherwise pandas works by label.\<close>

fun paired_by_position :: "'a array \<Rightarrow> 'b array \<Rightarrow> bool" where
  "paired_by_position (Series ls) (Series rs) = (map fst ls = map fst rs)"
| "paired_by_position (Series ls) (NdArray ys) = True"
| "paired_by_position (NdArray xs) b = True"

text \<open>\<^verbatim>\<open>real_values == fitted_values\<close>. \<^verbatim>\<open>None\<close> is compared with each element and is
  equal to none of them. Two Series with different indexes are not compared: pandas
  raises \<^verbatim>\<open>ValueError\<close>. Both operands have one length once the constructor has run.\<close>

definition np_eq :: "'a array option \<Rightarrow> 'a array \<Rightarrow> error + bool list" where
  "np_eq rv fv =
     (case rv of
        None \<Rightarrow> Inr (map (\<lambda>_. False) (elems fv))
      | Some r \<Rightarrow>
          if paired_by_position r fv then Inr (map2 (=) (elems r) (elems fv))
          else Inl (ValueError ''Can only compare identically-labeled Series objects''))"

definition np_sum :: "bool list \<Rightarrow> nat" where
  "np_sum bs = length (filter (\<lambda>b. b) bs)"

definition np_mean :: "bool list \<Rightarrow> np_float" where
  "np_mean bs = (if bs = [] then NaN else Finite (of_nat (np_sum bs) / of_nat (length bs)))"

text \<open>True division of two numpy integer counts: a zero divisor gives a sentinel, not
  an exception.\<close>

definition np_divide :: "nat \<Rightarrow> nat \<Rightarrow> np_float" where
  "np_divide a b =
     (if b = 0 then (if a = 0 then NaN else PosInf) else Finite (of_nat a / of_nat b))"

subsection \<open>Metrics of the base class\<close>

definition percentage_correctly_classified ::
  "('a, 'b) prediction_scheme \<Rightarrow> error + np_float" where
  "percentage_correctly_classified p =
     (case np_eq (real_values p) (fitted_values p) of
        Inl e \<Rightarrow> Inl e
      | Inr bs \<Rightarrow> Inr (np_mean bs))"

definition pcc :: "('a, 'b) prediction_scheme \<Rightarrow> error + np_float" where
  "pcc = percentage_correctly_classified"

definition matches :: "('a, 'b) prediction_scheme \<Rightarrow> error + bool list" where
  "matches p = np_eq (real_values p) (fitted_values p)"

section \<open>NumericPrediction\<close>

text \<open>A NumericPrediction has the fields of a Prediction. It inherits
  \<open>percentage_correctly_classified\<close> and replaces \<open>matches\<close>. What \<^verbatim>\<open>-\<close>, \<^verbatim>\<open>** 2\<close>,
  \<^verbatim>\<open>abs\<close> and \<^verbatim>\<open><=\<close> compute on an element is decided by the dtype of the arrays, so the
  metrics take the dtype as an argument: the four operations on elements of type \<open>'a\<close>,
  with a tolerance of type \<open>'t\<close>.\<close>

record ('a, 't) dtype =
  subtract :: "'a \<Rightarrow> 'a \<Rightarrow> 'a"
  square :: "'a \<Rightarrow> 'a"
  absolute :: "'a \<Rightarrow> 'a"
  less_equal :: "'a \<Rightarrow> 't \<Rightarrow> bool"

text \<open>int64, the dtype numpy gives to a list of Python integers: 64-bit two's complement,
  where every operation wraps around, so that the negation of -2^63 is -2^63 again. The
  tolerance is an integer of the same range; the default \<^verbatim>\<open>0.0\<close> of the source compares
  as the integer 0.\<close>

definition int64 :: "(64 word, 64 word) dtype" where
  "int64 = \<lparr>subtract = (\<lambda>x y. x - y), square = (\<lambda>x. x * x),
            absolute = (\<lambda>x. if sint x < 0 then - x else x),
            less_equal = (\<lambda>x t. sint x \<le> sint t)\<rparr>"

text \<open>Exact numbers, as in an array of dtype object that holds Python integers or
  fractions: the operations are those of the numbers themselves.\<close>

definition exact :: "('a::linordered_idom, 'a) dtype" where
  "exact = \<lparr>subtract = (\<lambda>x y. x - y), square = (\<lambda>x. x ^ 2), absolute = abs,
            less_equal = (\<lambda>x t. x \<le> t)\<rparr>"

text \<open>What an arithmetic expression on the two sequences gives: an exception, an array,
  or, for two Series that pandas cannot pair row by row, a result whose values are not
  modelled (see \<open>np_sub\<close>).\<close>

datatype 'r outcome = Raised error | Returned 'r | Realigned

text \<open>\<^verbatim>\<open>real_values - fitted_values\<close>. Subtracting an element from \<^verbatim>\<open>None\<close> raises
  \<^verbatim>\<open>TypeError\<close>, so the operation fails as soon as there is an element. Two Series with
  different indexes are aligned by label: when both indexes are free of duplicates and
  hold the same labels, the result has one row for each label, in increasing order of
  the labels, with the difference of the two values that carry the label. In the
  remaining case (a label in one index only, or a repeated label) pandas builds the
  result on the union of the labels, converting the values to a dtype that holds NaN
  where a row has no partner; that result is \<open>Realigned\<close>.\<close>

fun series_sub ::
  "('a, 't) dtype \<Rightarrow> (label \<times> 'a) list \<Rightarrow> (label \<times> 'a) list \<Rightarrow> 'a list outcome" where
  "series_sub D rs fs =
     (if map fst rs = map fst fs then Returned (map2 (subtract D) (map snd rs) (map snd fs))
      else if distinct (map fst rs) \<and> distinct (map fst fs)
              \<and> set (map fst rs) = set (map fst fs)
      then Returned (map (\<lambda>l. subtract D (the (map_of rs l)) (the (map_of fs l)))
                         (sort (map fst rs)))
      else Realigned)"

fun array_sub :: "('a, 't) dtype \<Rightarrow> 'a array \<Rightarrow> 'a array \<Rightarrow> 'a list outcome" where
  "array_sub D (Series rs) (Series fs) = series_sub D rs fs"
| "array_sub D (Series rs) (NdArray ys) = Returned (map2 (subtract D) (map snd rs) ys)"
| "array_sub D (NdArray xs) f = Returned (map2 (subtract D) xs (elems f))"

definition np_sub :: "('a, 't) dtype \<Rightarrow> 'a array option \<Rightarrow> 'a array \<Rightarrow> 'a list outcome" where
  "np_sub D rv fv =
     (case rv of
        None \<Rightarrow> (if elems fv = [] then Returned [] else Raised TypeError)
      | Some r \<Rightarrow> array_sub D r fv)"

definition residuals ::
  "('a, 't) dtype \<Rightarrow> ('a, 'b) prediction_scheme \<Rightarrow> bool \<Rightarrow> bool \<Rightarrow> 'a list outcome" where
  "residuals D p squared absolute_value =
     (case np_sub D (real_values p) (fitted_values p) of
        Raised e \<Rightarrow> Raised e
      | Realigned \<Rightarrow> Realigned
      | Returned res \<Rightarrow>
          if squared then Returned (map (square D) res)
          else if absolute_value then Returned (map (absolute D) res)
          else Returned res)"

definition NumericPrediction_matches ::
  "('a, 't) dtype \<Rightarrow> ('a, 'b) prediction_scheme \<Rightarrow> 't \<Rightarrow> bool list outcome" where
  "NumericPrediction_matches D p tolerance =
     (case np_sub D (real_values p) (fitted_values p) of
        Raised e \<Rightarrow> Raised e
      | Realigned \<Rightarrow> Realigned
      | Returned res \<Rightarrow> Returned (map (\<lambda>x. less_equal D (absolute D x) tolerance) res))"

section \<open>BinaryPrediction\<close>

record 'a binary_prediction = "'a prediction" +
  value_positive :: "'a"

definition BinaryPrediction_init ::
  "'a array_like \<Rightarrow> 'a array_like option \<Rightarrow> 'a \<Rightarrow> error + 'a binary_prediction" where
  "BinaryPrediction_init fv rv vp =
     (case Prediction_init fv rv of
        Inl e \<Rightarrow> Inl e
      | Inr p \<Rightarrow> Inr \<lparr>fitted_values = fitted_values p, real_values = real_values p,
                      value_positive = vp\<rparr>)"

subsection \<open>Comparison with the positive value\<close>

text \<open>\<^verbatim>\<open>fitted_values == value_positive\<close> and \<^verbatim>\<open>fitted_values != value_positive\<close>: the
  scalar is compared with every element. The mask of a Series keeps its labels.\<close>

datatype mask = ArrayMask "bool list" | SeriesMask "(label \<times> bool) list"

fun mask_values :: "mask \<Rightarrow> bool list" where
  "mask_values (ArrayMask bs) = bs"
| "mask_values (SeriesMask rows) = map snd rows"

fun eq_scalar :: "'a array \<Rightarrow> 'a \<Rightarrow> mask" where
  "eq_scalar (NdArray xs) v = ArrayMask (map (\<lambda>x. x = v) xs)"
| "eq_scalar (Series rows) v = SeriesMask (map (\<lambda>(l, x). (l, x = v)) rows)"

fun ne_scalar :: "'a array \<Rightarrow> 'a \<Rightarrow> mask" where
  "ne_scalar (NdArray xs) v = ArrayMask (map (\<lambda>x. x \<noteq> v) xs)"
| "ne_scalar (Series rows) v = SeriesMask (map (\<lambda>(l, x). (l, x \<noteq> v)) rows)"

text \<open>The same comparisons on \<^verbatim>\<open>real_values\<close>, which may be \<^verbatim>\<open>None\<close>: then Python
  compares two scalars and the result is one \<^verbatim>\<open>bool\<close>.\<close>

datatype real_mask = PyBool bool | Mask mask

definition real_eq_scalar :: "'a array option \<Rightarrow> 'a \<Rightarrow> real_mask" where
  "real_eq_scalar rv v = (case rv of None \<Rightarrow> PyBool False | Some r \<Rightarrow> Mask (eq_scalar r v))"

definition real_ne_scalar :: "'a array option \<Rightarrow> 'a \<Rightarrow> real_mask" where
  "real_ne_scalar rv v = (case rv of None \<Rightarrow> PyBool True | Some r \<Rightarrow> Mask (ne_scalar r v))"

text \<open>The rows of two Series masks with different indexes, as pandas aligns them: every
  pair of rows that carry one label, then the rows of either side whose label the other
  side lacks, in increasing order of the labels. What follows only counts the rows.\<close>

definition align ::
  "(label \<times> bool) list \<Rightarrow> (label \<times> bool) list \<Rightarrow> (label \<times> bool option \<times> bool option) list" where
  "align ls rs =
     sort_key fst
       (concat (map (\<lambda>(l, x). map (\<lambda>(k, y). (l, Some x, Some y)) (filter (\<lambda>(k, y). k = l) rs)) ls)
        @ map (\<lambda>(l, x). (l, Some x, None)) (filter (\<lambda>(l, x). l \<notin> set (map fst rs)) ls)
        @ map (\<lambda>(k, y). (k, None, Some y)) (filter (\<lambda>(k, y). k \<notin> set (map fst ls)) rs))"

text \<open>\<^verbatim>\<open>&\<close> on an aligned row: a side without partner counts as False.\<close>

fun and_row :: "label \<times> bool option \<times> bool option \<Rightarrow> bool" where
  "and_row (l, Some x, Some y) = (x \<and> y)"
| "and_row (l, Some x, None) = False"
| "and_row (l, None, y) = False"

text \<open>\<^verbatim>\<open>|\<close> on an aligned row: a missing right side counts as False; a row whose left
  side is missing is False whatever the right side holds.\<close>

fun or_row :: "label \<times> bool option \<times> bool option \<Rightarrow> bool" where
  "or_row (l, Some x, Some y) = (x \<or> y)"
| "or_row (l, Some x, None) = x"
| "or_row (l, None, y) = False"

text \<open>\<^verbatim>\<open>&\<close> and \<^verbatim>\<open>|\<close> of the mask of the fitted values with the mask of the real values:
  a single \<^verbatim>\<open>bool\<close> is combined with every element; an array is paired by position with
  anything; two Series are paired by position when their indexes are equal and aligned
  by label otherwise.\<close>

fun np_and :: "mask \<Rightarrow> real_mask \<Rightarrow> bool list" where
  "np_and m (PyBool b) = map (\<lambda>x. x \<and> b) (mask_values m)"
| "np_and (SeriesMask ls) (Mask (SeriesMask rs)) =
     (if map fst ls = map fst rs then map2 (\<and>) (map snd ls) (map snd rs)
      else map and_row (align ls rs))"
| "np_and (SeriesMask ls) (Mask (ArrayMask ys)) = map2 (\<and>) (map snd ls) ys"
| "np_and (ArrayMask xs) (Mask m) = map2 (\<and>) xs (mask_values m)"

fun np_or :: "mask \<Rightarrow> real_mask \<Rightarrow> bool list" where
  "np_or m (PyBool b) = map (\<lambda>x. x \<or> b) (mask_values m)"
| "np_or (SeriesMask ls) (Mask (SeriesMask rs)) =
     (if map fst ls = map fst rs then map2 (\<or>) (map snd ls) (map snd rs)
      else map or_row (align ls rs))"
| "np_or (SeriesMask ls) (Mask (ArrayMask ys)) = map2 (\<or>) (map snd ls) ys"
| "np_or (ArrayMask xs) (Mask m) = map2 (\<or>) xs (mask_values m)"

subsection \<open>Metrics of the binary class\<close>

text \<open>Indexing by a boolean mask keeps the elements where the mask is true, in order.
  Element 0 of an empty numpy array raises \<^verbatim>\<open>IndexError\<close>; label 0 of an empty Series
  raises \<^verbatim>\<open>KeyError\<close>; \<^verbatim>\<open>None\<close> cannot be indexed. On the numpy path the element is
  then asked for its \<^verbatim>\<open>copy\<close> method. \<open>has_copy x\<close> tells whether the object that the
  array hands back for the element \<open>x\<close> has one: every numpy scalar has (arrays of a
  numeric, boolean or string dtype), a plain Python object kept in an array of dtype
  object has it only when its class defines it (a Python \<^verbatim>\<open>str\<close> or \<^verbatim>\<open>int\<close> does
  not), and without it the call raises \<^verbatim>\<open>AttributeError\<close>.\<close>

definition value_negative :: "('a \<Rightarrow> bool) \<Rightarrow> 'a binary_prediction \<Rightarrow> error + 'a" where
  "value_negative has_copy bp =
     (case real_values bp of
        None \<Rightarrow> Inl TypeError
      | Some r \<Rightarrow>
          (let other_only = filter (\<lambda>x. x \<noteq> value_positive bp) (elems r)
           in case r of
                NdArray _ \<Rightarrow>
                  (case other_only of
                     [] \<Rightarrow> Inl IndexError
                   | x # _ \<Rightarrow> if has_copy x then Inr x else Inl AttributeError)
              | Series _ \<Rightarrow> (case other_only of [] \<Rightarrow> Inl KeyError | x # _ \<Rightarrow> Inr x)))"

definition sensitivity :: "'a binary_prediction \<Rightarrow> np_float" where
  "sensitivity bp =
     (let pred_pos = eq_scalar (fitted_values bp) (value_positive bp);
          real_pos = real_eq_scalar (real_values bp) (value_positive bp);
          caught_positive = np_and pred_pos real_pos
      in np_divide (np_sum caught_positive) (np_sum (np_or pred_pos real_pos)))"

definition specificity :: "'a binary_prediction \<Rightarrow> np_float" where
  "specificity bp =
     (let pred_neg = ne_scalar (fitted_values bp) (value_positive bp);
          real_neg = real_ne_scalar (real_values bp) (value_positive bp);
          caught_negative = np_and pred_neg real_neg
      in np_divide (np_sum caught_negative) (np_sum (np_or pred_neg real_neg)))"

text \<open>What \<^verbatim>\<open>confusion_matrix\<close> hands back: the numpy array of counts, or \<^verbatim>\<open>None\<close> when
  the body ends without a \<^verbatim>\<open>return\<close>.\<close>

datatype conf_result = Conf "nat list list" | PyNone

definition confusion_matrix :: "'a binary_prediction \<Rightarrow> bool \<Rightarrow> conf_result" where
  "confusion_matrix bp as_dataframe =
     (let pred_pos = eq_scalar (fitted_values bp) (value_positive bp);
          pred_neg = ne_scalar (fitted_values bp) (value_positive bp);
          real_pos = real_eq_scalar (real_values bp) (value_positive bp);
          real_neg = real_ne_scalar (real_values bp) (value_positive bp);
          conf = [[np_sum (np_and pred_neg real_neg), np_sum (np_and pred_pos real_neg)],
                  [np_sum (np_and pred_neg real_pos), np_sum (np_and pred_pos real_pos)]]
      in if \<not> as_dataframe then Conf conf else PyNone)"

section \<open>Counting in the words of the specification\<close>

text \<open>\<open>count N P\<close> is the number of positions \<open>i\<close> below \<open>N\<close> at which \<open>P i\<close> holds.\<close>

definition count :: "nat \<Rightarrow> (nat \<Rightarrow> bool) \<Rightarrow> nat" where
  "count N P = length (filter P [0..<N])"

text \<open>The two constructor arguments are paired by position by every operator: at least
  one of them is a list or a numpy array, or both are Series with equal indexes.\<close>

fun positional :: "'a array_like \<Rightarrow> 'a array_like \<Rightarrow> bool" where
  "positional (Array (Series ls)) (Array (Series rs)) = (map fst ls = map fst rs)"
| "positional (Array (Series ls)) (Array (NdArray ys)) = True"
| "positional (Array (Series ls)) (PyList ys) = True"
| "positional (Array (NdArray xs)) b = True"
| "positional (PyList xs) b = True"

section \<open>Facts about the operations\<close>

lemma str_nat_small: "n < 10 \<Longrightarrow> str_nat n = [digit_char n]"
  by (simp add: str_nat.simps)

lemma Prediction_init_Some:
  "Prediction_init fv (Some rv) =
     (if len fv \<noteq> len rv then Inl (ValueError (length_message (len fv) (len rv)))
      else Inr \<lparr>fitted_values = lists_to_nparray fv,
                real_values = Some (lists_to_nparray rv)\<rparr>)"
  by (simp add: Prediction_init_def check_lengths_match_def Let_def)

lemma elems_lists_to_nparray [simp]: "elems (lists_to_nparray v) = items v"
  by (cases v) simp_all

lemma sublist_fit: "sublist (str_nat a) (length_message a b)"
proof -
  have "length_message a b =
      (''Fitted values and real values must have the same length.'' @ [CHR 0x0A]
         @ ''Fitted values has length: '')
      @ str_nat a @ (''.'' @ [CHR 0x0A] @ ''Real values has length: '' @ str_nat b @ ''.'')"
    by (simp add: length_message_def)
  then show ?thesis
    unfolding sublist_def by blast
qed

lemma sublist_real: "sublist (str_nat b) (length_message a b)"
proof -
  have "length_message a b =
      (''Fitted values and real values must have the same length.'' @ [CHR 0x0A]
         @ ''Fitted values has length: '' @ str_nat a @ ''.'' @ [CHR 0x0A]
         @ ''Real values has length: '')
      @ str_nat b @ ''.''"
    by (simp add: length_message_def)
  then show ?thesis
    unfolding sublist_def by blast
qed

lemma count_card: "count N P = card {i. i < N \<and> P i}"
proof -
  have "{i. i < N \<and> P ([0..<N] ! i)} = {i. i < N \<and> P i}"
    by auto
  then show ?thesis
    by (simp add: count_def length_filter_conv_card)
qed

lemma np_sum_card: "np_sum bs = card {i. i < length bs \<and> bs ! i}"
  by (simp add: np_sum_def length_filter_conv_card)

lemma np_sum_map2:
  "length xs = length ys \<Longrightarrow> np_sum (map2 R xs ys) = count (length xs) (\<lambda>i. R (xs ! i) (ys ! i))"
  unfolding count_card np_sum_card
  by (rule arg_cong [where f = card]) auto

lemma count_le: "count N P \<le> N"
  unfolding count_card
  by (metis (no_types, lifting) card_lessThan card_mono finite_lessThan lessThan_iff mem_Collect_eq subsetI)

lemma Prediction_init_InrD:
  assumes "Prediction_init fv (Some rv) = Inr p"
  shows "len fv = len rv"
    and "p = \<lparr>fitted_values = lists_to_nparray fv, real_values = Some (lists_to_nparray rv)\<rparr>"
  using assms by (auto simp: Prediction_init_Some split: if_splits)

lemma BinaryPrediction_init_InrD:
  assumes "BinaryPrediction_init fv (Some rv) vp = Inr bp"
  shows "len fv = len rv"
    and "bp = \<lparr>fitted_values = lists_to_nparray fv, real_values = Some (lists_to_nparray rv),
               value_positive = vp\<rparr>"
  using assms by (auto simp: BinaryPrediction_init_def Prediction_init_Some split: if_splits)

lemma paired_with_NdArray [simp]: "paired_by_position a (NdArray ys)"
  by (cases a) simp_all

lemma positional_paired:
  "positional fv rv \<Longrightarrow> paired_by_position (lists_to_nparray rv) (lists_to_nparray fv)"
  by (induction fv rv rule: positional.induct) simp_all

lemma positional_paired_fitted_first:
  "positional fv rv \<Longrightarrow> paired_by_position (lists_to_nparray fv) (lists_to_nparray rv)"
  by (induction fv rv rule: positional.induct) simp_all

lemma matches_constructed:
  assumes "Prediction_init fv (Some rv) = Inr p" and "positional fv rv"
  shows "matches p = Inr (map2 (=) (items rv) (items fv))"
  using Prediction_init_InrD [OF assms(1)] positional_paired [OF assms(2)]
  by (simp add: matches_def np_eq_def)

lemma np_sum_map2_map:
  "length xs = length ys \<Longrightarrow>
     np_sum (map2 R (map P xs) (map Q ys)) = count (length xs) (\<lambda>i. R (P (xs ! i)) (Q (ys ! i)))"
  unfolding count_card np_sum_card
  by (rule arg_cong [where f = card]) auto

lemma count_Suc: "count (Suc N) P = count N P + (if P N then 1 else 0)"
  by (simp add: count_def)

lemma count_partition:
  "count N (\<lambda>i. \<not> P i \<and> \<not> Q i) + count N (\<lambda>i. P i \<and> \<not> Q i)
     + count N (\<lambda>i. \<not> P i \<and> Q i) + count N (\<lambda>i. P i \<and> Q i) = N"
proof (induction N)
  case 0
  show ?case by (simp add: count_def)
next
  case (Suc N)
  then show ?case by (simp add: count_Suc)
qed

lemma count_mono: "(\<And>i. i < N \<Longrightarrow> P i \<Longrightarrow> Q i) \<Longrightarrow> count N P \<le> count N Q"
  unfolding count_card by (rule card_mono) auto

lemma mask_values_eq_scalar [simp]: "mask_values (eq_scalar a v) = map (\<lambda>x. x = v) (elems a)"
  by (cases a) (simp_all add: case_prod_unfold)

lemma mask_values_ne_scalar [simp]: "mask_values (ne_scalar a v) = map (\<lambda>x. x \<noteq> v) (elems a)"
  by (cases a) (simp_all add: case_prod_unfold)

lemma np_and_paired:
  assumes "paired_by_position F R"
  shows "np_and (eq_scalar F v) (Mask (eq_scalar R v))
           = map2 (\<and>) (map (\<lambda>x. x = v) (elems F)) (map (\<lambda>x. x = v) (elems R))"
    and "np_and (eq_scalar F v) (Mask (ne_scalar R v))
           = map2 (\<and>) (map (\<lambda>x. x = v) (elems F)) (map (\<lambda>x. x \<noteq> v) (elems R))"
    and "np_and (ne_scalar F v) (Mask (eq_scalar R v))
           = map2 (\<and>) (map (\<lambda>x. x \<noteq> v) (elems F)) (map (\<lambda>x. x = v) (elems R))"
    and "np_and (ne_scalar F v) (Mask (ne_scalar R v))
           = map2 (\<and>) (map (\<lambda>x. x \<noteq> v) (elems F)) (map (\<lambda>x. x \<noteq> v) (elems R))"
  using assms by (cases F; cases R; simp add: case_prod_unfold comp_def)+

lemma np_or_paired:
  assumes "paired_by_position F R"
  shows "np_or (eq_scalar F v) (Mask (eq_scalar R v))
           = map2 (\<or>) (map (\<lambda>x. x = v) (elems F)) (map (\<lambda>x. x = v) (elems R))"
    and "np_or (ne_scalar F v) (Mask (ne_scalar R v))
           = map2 (\<or>) (map (\<lambda>x. x \<noteq> v) (elems F)) (map (\<lambda>x. x \<noteq> v) (elems R))"
  using assms by (cases F; cases R; simp add: case_prod_unfold comp_def)+

lemma confusion_matrix_counts:
  assumes "BinaryPrediction_init fv (Some rv) vp = Inr bp" and "positional fv rv"
  shows "confusion_matrix bp False =
     Conf [[count (len fv) (\<lambda>i. items fv ! i \<noteq> vp \<and> items rv ! i \<noteq> vp),
            count (len fv) (\<lambda>i. items fv ! i = vp \<and> items rv ! i \<noteq> vp)],
           [count (len fv) (\<lambda>i. items fv ! i \<noteq> vp \<and> items rv ! i = vp),
            count (len fv) (\<lambda>i. items fv ! i = vp \<and> items rv ! i = vp)]]"
proof -
  note d = BinaryPrediction_init_InrD [OF assms(1)]
  note q = positional_paired_fitted_first [OF assms(2)]
  have l: "length (items fv) = length (items rv)"
    using d(1) by (simp add: len_def)
  show ?thesis
    by (simp add: d(2) confusion_matrix_def real_eq_scalar_def real_ne_scalar_def
        np_and_paired [OF q] np_sum_map2_map [OF l] len_def)
qed

lemma array_sub_paired:
  "paired_by_position r f \<Longrightarrow> array_sub D r f = Returned (map2 (subtract D) (elems r) (elems f))"
  by (cases r; cases f) simp_all

lemma np_sub_constructed:
  assumes "Prediction_init fv (Some rv) = Inr p" and "positional fv rv"
  shows "np_sub D (real_values p) (fitted_values p)
           = Returned (map2 (subtract D) (items rv) (items fv))"
  using Prediction_init_InrD [OF assms(1)] array_sub_paired [OF positional_paired [OF assms(2)]]
  by (simp add: np_sub_def)

lemma map2_nth:
  "length xs = length ys \<Longrightarrow> map2 R xs ys = map (\<lambda>i. R (xs ! i) (ys ! i)) [0..<length xs]"
  by (rule nth_equalityI) simp_all

lemma sint_sub_exact:
  fixes x y :: "64 word"
  assumes "- (2 ^ 63) \<le> sint x - sint y" "sint x - sint y < 2 ^ 63"
  shows "sint (x - y) = sint x - sint y"
  using assms by (simp add: sint_word_ariths signed_take_bit_int_eq_self)

lemma sint_neg_exact:
  fixes x :: "64 word"
  assumes "sint x \<noteq> - (2 ^ 63)"
  shows "sint (- x) = - sint x"
proof -
  have "- (2 ^ 63) \<le> sint x" "sint x < 2 ^ 63"
    using sint_ge [of x] sint_lt [of x] by simp_all
  with assms have "- (2 ^ 63) \<le> - sint x" "- sint x < 2 ^ 63"
    by simp_all
  then show ?thesis
    by (simp add: sint_word_ariths signed_take_bit_int_eq_self)
qed

lemma sint_square_exact:
  fixes x :: "64 word"
  assumes "sint x * sint x < 2 ^ 63"
  shows "sint (x * x) = sint x * sint x"
proof -
  have "0 \<le> sint x * sint x"
    by simp
  then have "- (2 ^ 63) \<le> sint x * sint x"
    by (smt (verit) zero_le_power)
  with assms show ?thesis
    by (simp add: sint_word_ariths signed_take_bit_int_eq_self)
qed

lemma int64_exact_unless_overflow:
  fixes x y t :: "64 word"
  shows "- (2 ^ 63) \<le> sint x - sint y \<and> sint x - sint y < 2 ^ 63
           \<longrightarrow> sint (subtract int64 x y) = sint x - sint y"
    and "sint x * sint x < 2 ^ 63 \<longrightarrow> sint (square int64 x) = sint x * sint x"
    and "sint x \<noteq> - (2 ^ 63) \<longrightarrow> sint (absolute int64 x) = \<bar>sint x\<bar>"
    and "less_equal int64 x t = (sint x \<le> sint t)"
  using sint_neg_exact [of x]
  by (simp_all add: int64_def sint_sub_exact sint_square_exact)


lemma int64_abs_le_zero:
  fixes w :: "64 word"
  assumes "sint w \<noteq> - (2 ^ 63)"
  shows "less_equal int64 (absolute int64 w) 0 = (w = 0)"
proof -
  have a: "sint (absolute int64 w) = \<bar>sint w\<bar>"
    using int64_exact_unless_overflow(3) assms by blast
  have "less_equal int64 (absolute int64 w) 0 = (\<bar>sint w\<bar> \<le> 0)"
    by (simp add: int64_exact_unless_overflow(4) a)
  also have "\<dots> = (sint w = 0)"
    by simp
  also have "\<dots> = (w = 0)"
    by (simp add: signed_eq_0_iff)
  finally show ?thesis .
qed

lemma filter_first:
  "\<exists>x \<in> set xs. P x \<Longrightarrow>
     \<exists>i < length xs. \<exists>ys. filter P xs = xs ! i # ys \<and> P (xs ! i) \<and> (\<forall>j < i. \<not> P (xs ! j))"
proof (induction xs)
  case Nil
  then show ?case by simp
next
  case (Cons a xs)
  show ?case
  proof (cases "P a")
    case True
    then have "filter P (a # xs) = (a # xs) ! 0 # filter P xs \<and> P ((a # xs) ! 0)
        \<and> (\<forall>j < 0. \<not> P ((a # xs) ! j))"
      by simp
    then show ?thesis
      by (metis length_greater_0_conv list.discI)
  next
    case False
    with Cons.prems have "\<exists>x \<in> set xs. P x"
      by auto
    from Cons.IH [OF this] obtain i ys where i: "i < length xs" "filter P xs = xs ! i # ys"
      "P (xs ! i)" "\<forall>j < i. \<not> P (xs ! j)"
      by blast
    have "\<forall>j < Suc i. \<not> P ((a # xs) ! j)"
      using False i(4) by (auto simp: less_Suc_eq_0_disj)
    with False i have "Suc i < length (a # xs) \<and> filter P (a # xs) = (a # xs) ! Suc i # ys
        \<and> P ((a # xs) ! Suc i) \<and> (\<forall>j < Suc i. \<not> P ((a # xs) ! j))"
      by simp
    then show ?thesis
      by blast
  qed
qed

lemma value_negative_Some:
  "real_values bp = Some r \<Longrightarrow>
     value_negative has_copy bp =
       (case filter (\<lambda>x. x \<noteq> value_positive bp) (elems r) of
          [] \<Rightarrow> Inl (case r of NdArray _ \<Rightarrow> IndexError | Series _ \<Rightarrow> KeyError)
        | x # _ \<Rightarrow>
            (case r of
               NdArray _ \<Rightarrow> if has_copy x then Inr x else Inl AttributeError
             | Series _ \<Rightarrow> Inr x))"
  by (cases r) (simp_all add: value_negative_def split: list.splits)

lemma value_negative_first_other:
  assumes "real_values bp = Some r"
    and "(\<exists>rows. r = Series rows) \<or> (\<forall>x \<in> set (elems r). has_copy x)"
  shows "((\<exists>x \<in> set (elems r). x \<noteq> value_positive bp) \<longrightarrow>
            (\<exists>i < length (elems r). value_negative has_copy bp = Inr (elems r ! i)
               \<and> elems r ! i \<noteq> value_positive bp
               \<and> (\<forall>j < i. elems r ! j = value_positive bp)))
     \<and> ((\<forall>x \<in> set (elems r). x = value_positive bp) \<longrightarrow>
            (\<exists>e. value_negative has_copy bp = Inl e))"
proof (intro conjI impI)
  assume "\<exists>x \<in> set (elems r). x \<noteq> value_positive bp"
  from filter_first [of "elems r" "\<lambda>x. x \<noteq> value_positive bp", OF this]
  obtain i ys where i: "i < length (elems r)"
    "filter (\<lambda>x. x \<noteq> value_positive bp) (elems r) = elems r ! i # ys"
    "elems r ! i \<noteq> value_positive bp" "\<forall>j < i. \<not> elems r ! j \<noteq> value_positive bp"
    by blast
  have "elems r ! i \<in> set (elems r)"
    using i(1) by simp
  with assms(2) have "(\<exists>rows. r = Series rows) \<or> has_copy (elems r ! i)"
    by blast
  then have "value_negative has_copy bp = Inr (elems r ! i)"
    by (auto simp: value_negative_Some [OF assms(1)] i(2) split: array.splits)
  with i show "\<exists>i < length (elems r). value_negative has_copy bp = Inr (elems r ! i)
               \<and> elems r ! i \<noteq> value_positive bp
               \<and> (\<forall>j < i. elems r ! j = value_positive bp)"
    by blast
next
  assume "\<forall>x \<in> set (elems r). x = value_positive bp"
  then have "filter (\<lambda>x. x \<noteq> value_positive bp) (elems r) = []"
    by (simp add: filter_empty_conv)
  then show "\<exists>e. value_negative has_copy bp = Inl e"
    by (simp add: value_negative_Some [OF assms(1)])
qed

section \<open>Claims\<close>

text \<open>
  C3. Constructing a Prediction from fitted values of length a and real values of length
  b with a different from b fails with the length-mismatch \<^verbatim>\<open>ValueError\<close>, whose message
  contains the decimal text of a and of b, and the result is the error alone, never an
  object; when the two lengths are equal the construction succeeds and returns an object.
\<close>

theorem Prediction_init_length_check:
  "(len fv \<noteq> len rv \<longrightarrow>
      (\<exists>msg. Prediction_init fv (Some rv) = Inl (ValueError msg)
         \<and> sublist (str_nat (len fv)) msg \<and> sublist (str_nat (len rv)) msg)
      \<and> (\<forall>p. Prediction_init fv (Some rv) \<noteq> Inr p))
   \<and> (len fv = len rv \<longrightarrow> (\<exists>p. Prediction_init fv (Some rv) = Inr p))"
  by (simp add: Prediction_init_Some sublist_fit sublist_real)

theorem Prediction_init_length_check_witness:
  "Prediction_init (PyList [1, 2, 3 :: int]) (Some (PyList [1, 2])) =
     Inl (ValueError (''Fitted values and real values must have the same length.'' @ [CHR 0x0A]
        @ ''Fitted values has length: 3.'' @ [CHR 0x0A] @ ''Real values has length: 2.''))
   \<and> sublist ''3'' (length_message 3 2) \<and> sublist ''2'' (length_message 3 2)
   \<and> (\<exists>p. Prediction_init (PyList [1, 2, 3 :: int]) (Some (Array (Series [(0, 1), (1, 0), (2, 3)]))) = Inr p)"
  using Prediction_init_length_check [of "PyList [1, 2, 3 :: int]" "PyList [1, 2]"]
    Prediction_init_length_check [of "PyList [1, 2, 3 :: int]" "Array (Series [(0, 1), (1, 0), (2, 3)])"]
  by (simp add: len_def Prediction_init_Some length_message_def str_nat_small digit_char_def)

text \<open>
  C6, amended. For a Prediction built from two sequences of one length N that the
  operators pair by position (at least one of them a list or a numpy array, or two Series
  with equal indexes), \<open>matches\<close> is the boolean sequence of length N whose entry i tells
  whether fitted[i] equals real[i]; \<open>percentage_correctly_classified\<close> is the mean of that
  sequence and \<open>pcc\<close> is the same computation; the rate is NaN when N = 0 and otherwise a
  number between 0 and 1, namely the count of equal positions divided by N. For fitted
  [1,2,3] and real [1,0,3] the matches are [True, False, True] and the rate is 2/3.
\<close>

theorem matches_pcc:
  assumes "Prediction_init fv (Some rv) = Inr p" and "positional fv rv"
  shows "\<exists>bs. matches p = Inr bs
     \<and> length bs = len fv
     \<and> (\<forall>i < len fv. bs ! i = (items fv ! i = items rv ! i))
     \<and> percentage_correctly_classified p = Inr (np_mean bs)
     \<and> pcc p = percentage_correctly_classified p
     \<and> (len fv = 0 \<longrightarrow> percentage_correctly_classified p = Inr NaN)
     \<and> (0 < len fv \<longrightarrow>
          (\<exists>q. percentage_correctly_classified p = Inr (Finite q) \<and> 0 \<le> q \<and> q \<le> 1
             \<and> q = of_nat (count (len fv) (\<lambda>i. items fv ! i = items rv ! i)) / of_nat (len fv)))"
proof -
  note d = Prediction_init_InrD [OF assms(1)]
  define bs where "bs = map2 (=) (items rv) (items fv)"
  have l: "length (items rv) = length (items fv)"
    using d(1) by (simp add: len_def)
  have m: "matches p = Inr bs"
    unfolding bs_def by (rule matches_constructed [OF assms])
  have s: "np_sum bs = count (len fv) (\<lambda>i. items fv ! i = items rv ! i)"
    unfolding bs_def using np_sum_map2 [OF l, of "(=)"] l
    by (simp add: len_def eq_commute)
  have c1: "length bs = len fv"
    by (simp add: bs_def l len_def)
  have c2: "\<forall>i < len fv. bs ! i = (items fv ! i = items rv ! i)"
    by (auto simp: bs_def l len_def)
  have c3: "percentage_correctly_classified p = Inr (np_mean bs)"
    using m by (simp add: percentage_correctly_classified_def matches_def)
  have c4: "pcc p = percentage_correctly_classified p"
    by (simp add: pcc_def)
  have c5: "len fv = 0 \<longrightarrow> percentage_correctly_classified p = Inr NaN"
  proof
    assume "len fv = 0"
    then have "bs = []"
      using c1 by simp
    then show "percentage_correctly_classified p = Inr NaN"
      by (simp add: c3 np_mean_def)
  qed
  have c6: "0 < len fv \<longrightarrow>
          (\<exists>q. percentage_correctly_classified p = Inr (Finite q) \<and> 0 \<le> q \<and> q \<le> 1
             \<and> q = of_nat (count (len fv) (\<lambda>i. items fv ! i = items rv ! i)) / of_nat (len fv))"
  proof
    assume pos: "0 < len fv"
    then have ne: "bs \<noteq> []"
      using c1 by auto
    let ?c = "count (len fv) (\<lambda>i. items fv ! i = items rv ! i)"
    have v: "percentage_correctly_classified p = Inr (Finite (of_nat ?c / of_nat (len fv)))"
      using ne by (simp add: c3 np_mean_def s c1)
    have "?c \<le> len fv"
      by (rule count_le)
    then have "(of_nat ?c :: rat) \<le> of_nat (len fv)"
      by (simp only: of_nat_le_iff)
    then have "(of_nat ?c :: rat) / of_nat (len fv) \<le> 1"
      using pos by (simp add: divide_le_eq)
    then show "\<exists>q. percentage_correctly_classified p = Inr (Finite q) \<and> 0 \<le> q \<and> q \<le> 1
             \<and> q = of_nat ?c / of_nat (len fv)"
      using v by simp
  qed
  show ?thesis
    by (intro exI [of _ bs] conjI) (fact m c1 c2 c3 c4 c5 c6)+
qed

theorem matches_pcc_witness:
  "Prediction_init (PyList [1, 2, 3 :: int]) (Some (PyList [1, 0, 3]))
      = Inr \<lparr>fitted_values = NdArray [1, 2, 3], real_values = Some (NdArray [1, 0, 3])\<rparr>
   \<and> positional (PyList [1, 2, 3 :: int]) (PyList [1, 0, 3])
   \<and> matches \<lparr>fitted_values = NdArray [1, 2, 3 :: int], real_values = Some (NdArray [1, 0, 3])\<rparr>
      = Inr [True, False, True]
   \<and> percentage_correctly_classified
        \<lparr>fitted_values = NdArray [1, 2, 3 :: int], real_values = Some (NdArray [1, 0, 3])\<rparr>
      = Inr (Finite (2 / 3))
   \<and> pcc \<lparr>fitted_values = NdArray [1, 2, 3 :: int], real_values = Some (NdArray [1, 0, 3])\<rparr>
      = Inr (Finite (2 / 3))
   \<and> percentage_correctly_classified
        \<lparr>fitted_values = NdArray ([] :: int list), real_values = Some (NdArray [])\<rparr> = Inr NaN"
proof -
  let ?p = "\<lparr>fitted_values = NdArray [1, 2, 3 :: int], real_values = Some (NdArray [1, 0, 3])\<rparr>"
  let ?e = "\<lparr>fitted_values = NdArray ([] :: int list), real_values = Some (NdArray [])\<rparr>"
  have h: "Prediction_init (PyList [1, 2, 3 :: int]) (Some (PyList [1, 0, 3])) = Inr ?p"
    by (simp add: Prediction_init_Some len_def)
  have pos: "positional (PyList [1, 2, 3 :: int]) (PyList [1, 0, 3])"
    by simp
  have h0: "Prediction_init (PyList ([] :: int list)) (Some (PyList [])) = Inr ?e"
    by (simp add: Prediction_init_Some len_def)
  have pos0: "positional (PyList ([] :: int list)) (PyList [])"
    by simp
  have m: "matches ?p = Inr [True, False, True]"
    by (simp add: matches_def np_eq_def)
  from matches_pcc [OF h pos] obtain bs where b: "matches ?p = Inr bs"
    "percentage_correctly_classified ?p = Inr (np_mean bs)"
    "pcc ?p = percentage_correctly_classified ?p"
    by blast
  from b(1) m have "bs = [True, False, True]"
    by simp
  with b(2) have r: "percentage_correctly_classified ?p = Inr (Finite (2 / 3))"
    by (simp add: np_mean_def np_sum_def)
  have "len (PyList ([] :: int list)) = 0"
    by (simp add: len_def)
  with matches_pcc [OF h0 pos0] have e: "percentage_correctly_classified ?e = Inr NaN"
    by blast
  have a: "pcc ?p = Inr (Finite (2 / 3))"
    using b(3) r by simp
  show ?thesis
    using h pos m r a e by (intro conjI)
qed

text \<open>
  C6, as stated, at two Series of one length with different index labels: fitted
  [1,2,3] labelled 10, 11, 12 and real [1,0,3] labelled 0, 1, 2. The object is built, and
  both \<open>matches\<close> and \<open>percentage_correctly_classified\<close> raise \<^verbatim>\<open>ValueError\<close> instead of
  returning a sequence and a rate.
\<close>

theorem matches_pcc_unequal_labels_raise:
  "Prediction_init (Array (Series [(10, 1), (11, 2), (12, 3 :: int)]))
        (Some (Array (Series [(0, 1), (1, 0), (2, 3)])))
      = Inr \<lparr>fitted_values = Series [(10, 1), (11, 2), (12, 3)],
             real_values = Some (Series [(0, 1), (1, 0), (2, 3)])\<rparr>
   \<and> matches \<lparr>fitted_values = Series [(10, 1), (11, 2), (12, 3 :: int)],
        real_values = Some (Series [(0, 1), (1, 0), (2, 3)])\<rparr>
      = Inl (ValueError ''Can only compare identically-labeled Series objects'')
   \<and> percentage_correctly_classified \<lparr>fitted_values = Series [(10, 1), (11, 2), (12, 3 :: int)],
        real_values = Some (Series [(0, 1), (1, 0), (2, 3)])\<rparr>
      = Inl (ValueError ''Can only compare identically-labeled Series objects'')"
  by (simp add: Prediction_init_Some len_def matches_def percentage_correctly_classified_def
      np_eq_def)

text \<open>
  C1. The confusion matrix of fitted [1,1,0,0], real [1,0,0,0] and positive value 1.
  With \<open>as_dataframe\<close> false the result is the matrix of counts [[2,1],[0,1]] (the
  general layout is lemma \<open>confusion_matrix_counts\<close>). With \<open>as_dataframe\<close> true the body
  passes the guard \<^verbatim>\<open>if not as_dataframe\<close> and ends, so the call returns \<^verbatim>\<open>None\<close>:
  no table with the four counts is produced.
\<close>

theorem confusion_matrix_as_dataframe_returns_None:
  "BinaryPrediction_init (PyList [1, 1, 0, 0 :: int]) (Some (PyList [1, 0, 0, 0])) 1
      = Inr \<lparr>fitted_values = NdArray [1, 1, 0, 0], real_values = Some (NdArray [1, 0, 0, 0]),
             value_positive = 1\<rparr>
   \<and> confusion_matrix \<lparr>fitted_values = NdArray [1, 1, 0, 0 :: int],
        real_values = Some (NdArray [1, 0, 0, 0]), value_positive = 1\<rparr> False
      = Conf [[2, 1], [0, 1]]
   \<and> confusion_matrix \<lparr>fitted_values = NdArray [1, 1, 0, 0 :: int],
        real_values = Some (NdArray [1, 0, 0, 0]), value_positive = 1\<rparr> True = PyNone"
  by (simp add: BinaryPrediction_init_def Prediction_init_Some len_def
        confusion_matrix_def real_eq_scalar_def real_ne_scalar_def np_sum_def)

text \<open>
  C8, as stated, at fitted values [1,2,3] with no real values: the object is built, and
  \<open>percentage_correctly_classified\<close>, a metric that reads the real values, does not fail:
  \<^verbatim>\<open>None\<close> equals no element, so \<open>matches\<close> is all False and the rate is 0.
\<close>

theorem absent_real_values_pcc_returns:
  "Prediction_init (PyList [1, 2, 3 :: int]) None
      = Inr \<lparr>fitted_values = NdArray [1, 2, 3], real_values = None\<rparr>
   \<and> matches \<lparr>fitted_values = NdArray [1, 2, 3 :: int], real_values = None\<rparr>
      = Inr [False, False, False]
   \<and> percentage_correctly_classified
        \<lparr>fitted_values = NdArray [1, 2, 3 :: int], real_values = None\<rparr> = Inr (Finite 0)"
  by (simp add: Prediction_init_def check_lengths_match_def matches_def np_eq_def
      percentage_correctly_classified_def np_mean_def np_sum_def)

text \<open>
  C8, amended. When the real values are absent, the length check does nothing and the
  construction succeeds for any fitted values, storing them with no real values; no
  metric is refused at construction. Afterwards the metrics that subtract (\<open>residuals\<close>
  and the tolerance \<open>matches\<close>, whatever the dtype) fail with a \<^verbatim>\<open>TypeError\<close> on
  non-empty fitted values, while the metrics that compare for equality do not fail:
  \<open>matches\<close> is False at every position and \<open>percentage_correctly_classified\<close> is 0 (NaN
  for empty fitted values).
\<close>

theorem Prediction_init_absent_real_values:
  fixes fv :: "'a array_like" and nv :: "'b array_like" and D :: "('b, 't) dtype"
  shows "check_lengths_match fv None = Inr ()
     \<and> Prediction_init fv None
          = Inr \<lparr>fitted_values = lists_to_nparray fv, real_values = None\<rparr>
     \<and> matches \<lparr>fitted_values = lists_to_nparray fv, real_values = None\<rparr>
          = Inr (replicate (len fv) False)
     \<and> percentage_correctly_classified \<lparr>fitted_values = lists_to_nparray fv, real_values = None\<rparr>
          = Inr (if len fv = 0 then NaN else Finite 0)
     \<and> (0 < len nv \<longrightarrow>
           residuals D \<lparr>fitted_values = lists_to_nparray nv, real_values = None\<rparr>
               squared absolute_value = Raised TypeError
         \<and> NumericPrediction_matches D \<lparr>fitted_values = lists_to_nparray nv, real_values = None\<rparr>
               tolerance = Raised TypeError)"
proof -
  have f: "filter (\<lambda>b. b) (map (\<lambda>_. False) xs) = []" for xs :: "'a list"
    by (induction xs) simp_all
  show ?thesis
    by (simp add: Prediction_init_def check_lengths_match_def matches_def np_eq_def
      percentage_correctly_classified_def np_mean_def np_sum_def f len_def map_replicate_const
      residuals_def NumericPrediction_matches_def np_sub_def)
qed

theorem Prediction_init_absent_real_values_witness:
  "Prediction_init (PyList [1, 2, 3 :: int]) None
      = Inr \<lparr>fitted_values = NdArray [1, 2, 3], real_values = None\<rparr>
   \<and> residuals exact \<lparr>fitted_values = NdArray [1, 2, 3 :: int], real_values = None\<rparr> False False
      = Raised TypeError
   \<and> NumericPrediction_matches exact
        \<lparr>fitted_values = NdArray [1, 2, 3 :: int], real_values = None\<rparr> 0
      = Raised TypeError"
proof -
  have l: "0 < len (PyList [1, 2, 3 :: int])"
    by (simp add: len_def)
  note t = Prediction_init_absent_real_values
    [where fv = "PyList [1, 2, 3 :: int]" and nv = "PyList [1, 2, 3 :: int]" and D = exact
      and squared = False and absolute_value = False and tolerance = 0]
  note r = t [THEN conjunct2, THEN conjunct2, THEN conjunct2, THEN conjunct2, THEN mp, OF l]
  from t [THEN conjunct2, THEN conjunct1] r show ?thesis
    by simp
qed

text \<open>
  C2, amended. For a BinaryPrediction built from two sequences of one length that the
  operators pair by position (at least one of them a list or a numpy array, or two Series
  with equal indexes), \<open>sensitivity\<close> is the count of positions that are predicted
  positive and actually positive, divided by the count of positions that are predicted
  positive or actually positive; \<open>specificity\<close> is the count of positions predicted
  negative and actually negative, divided by the count of positions predicted negative
  or actually negative. Each value is that quotient when the divisor is positive and NaN
  when it is 0. The divisor is the union of the two classes, not the count of the actual
  class: for fitted [1,1,0,0], real [1,0,0,0] and positive value 1 the sensitivity is
  1/2, where dividing by the single actual positive would give 1.
\<close>

theorem sensitivity_specificity_union:
  assumes "BinaryPrediction_init fv (Some rv) vp = Inr bp" and "positional fv rv"
  shows "sensitivity bp =
           np_divide (count (len fv) (\<lambda>i. items fv ! i = vp \<and> items rv ! i = vp))
                     (count (len fv) (\<lambda>i. items fv ! i = vp \<or> items rv ! i = vp))
     \<and> specificity bp =
           np_divide (count (len fv) (\<lambda>i. items fv ! i \<noteq> vp \<and> items rv ! i \<noteq> vp))
                     (count (len fv) (\<lambda>i. items fv ! i \<noteq> vp \<or> items rv ! i \<noteq> vp))
     \<and> (0 < count (len fv) (\<lambda>i. items fv ! i = vp \<or> items rv ! i = vp) \<longrightarrow>
          sensitivity bp =
            Finite (of_nat (count (len fv) (\<lambda>i. items fv ! i = vp \<and> items rv ! i = vp))
                    / of_nat (count (len fv) (\<lambda>i. items fv ! i = vp \<or> items rv ! i = vp))))
     \<and> (count (len fv) (\<lambda>i. items fv ! i = vp \<or> items rv ! i = vp) = 0 \<longrightarrow>
          sensitivity bp = NaN)
     \<and> (0 < count (len fv) (\<lambda>i. items fv ! i \<noteq> vp \<or> items rv ! i \<noteq> vp) \<longrightarrow>
          specificity bp =
            Finite (of_nat (count (len fv) (\<lambda>i. items fv ! i \<noteq> vp \<and> items rv ! i \<noteq> vp))
                    / of_nat (count (len fv) (\<lambda>i. items fv ! i \<noteq> vp \<or> items rv ! i \<noteq> vp))))
     \<and> (count (len fv) (\<lambda>i. items fv ! i \<noteq> vp \<or> items rv ! i \<noteq> vp) = 0 \<longrightarrow>
          specificity bp = NaN)"
proof -
  note d = BinaryPrediction_init_InrD [OF assms(1)]
  note q = positional_paired_fitted_first [OF assms(2)]
  have l: "length (items fv) = length (items rv)"
    using d(1) by (simp add: len_def)
  let ?a = "count (len fv) (\<lambda>i. items fv ! i = vp \<and> items rv ! i = vp)"
  let ?b = "count (len fv) (\<lambda>i. items fv ! i = vp \<or> items rv ! i = vp)"
  let ?c = "count (len fv) (\<lambda>i. items fv ! i \<noteq> vp \<and> items rv ! i \<noteq> vp)"
  let ?d = "count (len fv) (\<lambda>i. items fv ! i \<noteq> vp \<or> items rv ! i \<noteq> vp)"
  have s: "sensitivity bp = np_divide ?a ?b"
    by (simp add: d(2) sensitivity_def real_eq_scalar_def np_and_paired [OF q]
        np_or_paired [OF q] np_sum_map2_map [OF l] len_def)
  have t: "specificity bp = np_divide ?c ?d"
    by (simp add: d(2) specificity_def real_ne_scalar_def np_and_paired [OF q]
        np_or_paired [OF q] np_sum_map2_map [OF l] len_def)
  have ab: "?a \<le> ?b"
    by (rule count_mono) simp
  have cd: "?c \<le> ?d"
    by (rule count_mono) simp
  have s1: "0 < ?b \<longrightarrow> sensitivity bp = Finite (of_nat ?a / of_nat ?b)"
    by (simp add: s np_divide_def)
  have s0: "?b = 0 \<longrightarrow> sensitivity bp = NaN"
    using ab by (simp add: s np_divide_def)
  have t1: "0 < ?d \<longrightarrow> specificity bp = Finite (of_nat ?c / of_nat ?d)"
    by (simp add: t np_divide_def)
  have t0: "?d = 0 \<longrightarrow> specificity bp = NaN"
    using cd by (simp add: t np_divide_def)
  show ?thesis
    using s t s1 s0 t1 t0 by (intro conjI)
qed

theorem sensitivity_specificity_union_witness:
  "BinaryPrediction_init (PyList [1, 1, 0, 0 :: int]) (Some (PyList [1, 0, 0, 0])) 1
      = Inr \<lparr>fitted_values = NdArray [1, 1, 0, 0], real_values = Some (NdArray [1, 0, 0, 0]),
             value_positive = 1\<rparr>
   \<and> positional (PyList [1, 1, 0, 0 :: int]) (PyList [1, 0, 0, 0])
   \<and> sensitivity \<lparr>fitted_values = NdArray [1, 1, 0, 0 :: int],
        real_values = Some (NdArray [1, 0, 0, 0]), value_positive = 1\<rparr> = Finite (1 / 2)
   \<and> specificity \<lparr>fitted_values = NdArray [1, 1, 0, 0 :: int],
        real_values = Some (NdArray [1, 0, 0, 0]), value_positive = 1\<rparr> = Finite (2 / 3)
   \<and> np_divide (count 4 (\<lambda>i. [1, 1, 0, 0 :: int] ! i = 1 \<and> [1, 0, 0, 0 :: int] ! i = 1))
                (count 4 (\<lambda>i. [1, 0, 0, 0 :: int] ! i = 1)) = Finite 1"
proof -
  let ?bp = "\<lparr>fitted_values = NdArray [1, 1, 0, 0 :: int],
        real_values = Some (NdArray [1, 0, 0, 0]), value_positive = 1\<rparr>"
  have h: "BinaryPrediction_init (PyList [1, 1, 0, 0 :: int]) (Some (PyList [1, 0, 0, 0])) 1 = Inr ?bp"
    by (simp add: BinaryPrediction_init_def Prediction_init_Some len_def)
  have pos: "positional (PyList [1, 1, 0, 0 :: int]) (PyList [1, 0, 0, 0])"
    by simp
  have u: "[0..<4] = [0, 1, 2, 3]"
    by (simp add: upt_rec)
  note t = sensitivity_specificity_union [OF h pos]
  have s: "sensitivity ?bp = Finite (1 / 2)"
    using t [THEN conjunct1] by (simp add: len_def count_def u np_divide_def)
  have c: "specificity ?bp = Finite (2 / 3)"
    using t [THEN conjunct2, THEN conjunct1] by (simp add: len_def count_def u np_divide_def)
  have x: "np_divide (count 4 (\<lambda>i. [1, 1, 0, 0 :: int] ! i = 1 \<and> [1, 0, 0, 0 :: int] ! i = 1))
                (count 4 (\<lambda>i. [1, 0, 0, 0 :: int] ! i = 1)) = Finite 1"
    by (simp add: count_def u np_divide_def)
  show ?thesis
    using h pos s c x by (intro conjI)
qed

text \<open>
  C2, as stated, at two Series of one length with different index labels: fitted
  [1,0,0] labelled 10, 11, 12 and real [1,0,0] labelled 0, 1, 2, positive value 1. The
  masks are aligned by label, no row has a partner, and both \<open>sensitivity\<close> and
  \<open>specificity\<close> are 0, where the counts over positions give 1/1 and 2/2.
\<close>

theorem sensitivity_unequal_labels:
  "BinaryPrediction_init (Array (Series [(10, 1), (11, 0), (12, 0 :: int)]))
        (Some (Array (Series [(0, 1), (1, 0), (2, 0)]))) 1
      = Inr \<lparr>fitted_values = Series [(10, 1), (11, 0), (12, 0)],
             real_values = Some (Series [(0, 1), (1, 0), (2, 0)]), value_positive = 1\<rparr>
   \<and> sensitivity \<lparr>fitted_values = Series [(10, 1), (11, 0), (12, 0 :: int)],
        real_values = Some (Series [(0, 1), (1, 0), (2, 0)]), value_positive = 1\<rparr> = Finite 0
   \<and> np_divide (count 3 (\<lambda>i. [1, 0, 0 :: int] ! i = 1 \<and> [1, 0, 0 :: int] ! i = 1))
                (count 3 (\<lambda>i. [1, 0, 0 :: int] ! i = 1 \<or> [1, 0, 0 :: int] ! i = 1)) = Finite 1
   \<and> specificity \<lparr>fitted_values = Series [(10, 1), (11, 0), (12, 0 :: int)],
        real_values = Some (Series [(0, 1), (1, 0), (2, 0)]), value_positive = 1\<rparr> = Finite 0
   \<and> np_divide (count 3 (\<lambda>i. [1, 0, 0 :: int] ! i \<noteq> 1 \<and> [1, 0, 0 :: int] ! i \<noteq> 1))
                (count 3 (\<lambda>i. [1, 0, 0 :: int] ! i \<noteq> 1 \<or> [1, 0, 0 :: int] ! i \<noteq> 1)) = Finite 1"
proof -
  have u: "[0..<3] = [0, 1, 2]"
    by (simp add: upt_rec)
  show ?thesis
    by (simp add: BinaryPrediction_init_def Prediction_init_Some len_def sensitivity_def
        specificity_def real_eq_scalar_def real_ne_scalar_def align_def np_sum_def np_divide_def
        count_def u)
qed

text \<open>
  C10, amended. For a BinaryPrediction built from two sequences of one length N that
  the operators pair by position (at least one of them a list or a numpy array, or two
  Series with equal indexes), the four entries of the matrix returned by
  \<open>confusion_matrix\<close> with \<open>as_dataframe\<close> false add up to N.
\<close>

theorem confusion_matrix_sum:
  assumes "BinaryPrediction_init fv (Some rv) vp = Inr bp" and "positional fv rv"
  shows "\<exists>a b c d. confusion_matrix bp False = Conf [[a, b], [c, d]] \<and> a + b + c + d = len fv"
  using count_partition [where P = "\<lambda>i. items fv ! i = vp" and Q = "\<lambda>i. items rv ! i = vp"
      and N = "len fv"]
  by (simp add: confusion_matrix_counts [OF assms])

theorem confusion_matrix_sum_witness:
  "BinaryPrediction_init (PyList [1, 1, 0, 0 :: int]) (Some (PyList [1, 0, 0, 0])) 1
      = Inr \<lparr>fitted_values = NdArray [1, 1, 0, 0], real_values = Some (NdArray [1, 0, 0, 0]),
             value_positive = 1\<rparr>
   \<and> positional (PyList [1, 1, 0, 0 :: int]) (PyList [1, 0, 0, 0])
   \<and> confusion_matrix \<lparr>fitted_values = NdArray [1, 1, 0, 0 :: int],
        real_values = Some (NdArray [1, 0, 0, 0]), value_positive = 1\<rparr> False
      = Conf [[2, 1], [0, 1]]
   \<and> (\<exists>a b c d. confusion_matrix \<lparr>fitted_values = NdArray [1, 1, 0, 0 :: int],
        real_values = Some (NdArray [1, 0, 0, 0]), value_positive = 1\<rparr> False
      = Conf [[a, b], [c, d]] \<and> a + b + c + d = 4)"
proof -
  let ?bp = "\<lparr>fitted_values = NdArray [1, 1, 0, 0 :: int],
        real_values = Some (NdArray [1, 0, 0, 0]), value_positive = 1\<rparr>"
  have h: "BinaryPrediction_init (PyList [1, 1, 0, 0 :: int]) (Some (PyList [1, 0, 0, 0])) 1 = Inr ?bp"
    by (simp add: BinaryPrediction_init_def Prediction_init_Some len_def)
  have pos: "positional (PyList [1, 1, 0, 0 :: int]) (PyList [1, 0, 0, 0])"
    by simp
  have c: "confusion_matrix ?bp False = Conf [[2, 1], [0, 1]]"
    by (simp add: confusion_matrix_def real_eq_scalar_def real_ne_scalar_def np_sum_def)
  have l: "len (PyList [1, 1, 0, 0 :: int]) = 4"
    by (simp add: len_def)
  have e: "\<exists>a b c d. confusion_matrix ?bp False = Conf [[a, b], [c, d]] \<and> a + b + c + d = 4"
    using confusion_matrix_sum [OF h pos] unfolding l .
  show ?thesis
    using h pos c e by (intro conjI)
qed

text \<open>
  C10, as stated, at two Series of length 3 with different index labels: fitted [1,0,0]
  labelled 10, 11, 12 and real [0,0,1] labelled 0, 1, 2, positive value 1. The masks are
  aligned by label, no row has a partner, and the four entries are all 0: their sum is 0
  and not 3.
\<close>

theorem confusion_matrix_unequal_labels:
  "BinaryPrediction_init (Array (Series [(10, 1), (11, 0), (12, 0 :: int)]))
        (Some (Array (Series [(0, 0), (1, 0), (2, 1)]))) 1
      = Inr \<lparr>fitted_values = Series [(10, 1), (11, 0), (12, 0)],
             real_values = Some (Series [(0, 0), (1, 0), (2, 1)]), value_positive = 1\<rparr>
   \<and> len (Array (Series [(10, 1), (11, 0), (12, 0 :: int)])) = 3
   \<and> confusion_matrix \<lparr>fitted_values = Series [(10, 1), (11, 0), (12, 0 :: int)],
        real_values = Some (Series [(0, 0), (1, 0), (2, 1)]), value_positive = 1\<rparr> False
      = Conf [[0, 0], [0, 0]]"
  by (simp add: BinaryPrediction_init_def Prediction_init_Some len_def confusion_matrix_def
      real_eq_scalar_def real_ne_scalar_def align_def np_sum_def)

text \<open>
  C4, amended. For a NumericPrediction built from two sequences of one length that the
  operators pair by position (at least one of them a list or a numpy array, or two Series
  with equal indexes), \<open>residuals\<close> returns one of three forms, each computed in the
  arithmetic of the dtype: with both flags false the differences real[i] - fitted[i];
  with \<open>squared\<close> true the squares of those differences, whatever \<open>absolute_value\<close> is;
  with \<open>squared\<close> false and \<open>absolute_value\<close> true their absolute values. On exact
  integers these are the difference, the square and the absolute value of the numbers.
  On int64 they are those as long as nothing overflows: a difference within the int64
  range is the difference of the numbers, a square below 2^63 is the square, and the
  absolute value is the absolute value except at -2^63. For fitted [5,5,5] and real
  [3,4,6] the three forms are [-2,-1,1], [4,1,1] and [2,1,1].
\<close>

theorem residuals_forms:
  assumes "Prediction_init fv (Some rv) = Inr p" and "positional fv rv"
  shows "residuals D p False False
           = Returned (map2 (\<lambda>r f. subtract D r f) (items rv) (items fv))
     \<and> residuals D p True absolute_value
           = Returned (map2 (\<lambda>r f. square D (subtract D r f)) (items rv) (items fv))
     \<and> residuals D p False True
           = Returned (map2 (\<lambda>r f. absolute D (subtract D r f)) (items rv) (items fv))
     \<and> (\<forall>x y :: int. subtract exact x y = x - y \<and> square exact x = x ^ 2
            \<and> absolute exact x = \<bar>x\<bar>)
     \<and> (\<forall>x y :: 64 word.
           (- (2 ^ 63) \<le> sint x - sint y \<and> sint x - sint y < 2 ^ 63
              \<longrightarrow> sint (subtract int64 x y) = sint x - sint y)
         \<and> (sint x * sint x < 2 ^ 63 \<longrightarrow> sint (square int64 x) = sint x * sint x)
         \<and> (sint x \<noteq> - (2 ^ 63) \<longrightarrow> sint (absolute int64 x) = \<bar>sint x\<bar>))"
proof -
  have a: "residuals D p False False
           = Returned (map2 (\<lambda>r f. subtract D r f) (items rv) (items fv))"
    by (simp add: residuals_def np_sub_constructed [OF assms])
  have b: "residuals D p True absolute_value
           = Returned (map2 (\<lambda>r f. square D (subtract D r f)) (items rv) (items fv))"
    by (simp add: residuals_def np_sub_constructed [OF assms] map_zip_map2 [symmetric] split_def
        del: map_zip_map2)
  have c: "residuals D p False True
           = Returned (map2 (\<lambda>r f. absolute D (subtract D r f)) (items rv) (items fv))"
    by (simp add: residuals_def np_sub_constructed [OF assms] map_zip_map2 [symmetric] split_def
        del: map_zip_map2)
  have d: "\<forall>x y :: int. subtract exact x y = x - y \<and> square exact x = x ^ 2
            \<and> absolute exact x = \<bar>x\<bar>"
    by (simp add: exact_def)
  have e: "\<forall>x y :: 64 word.
           (- (2 ^ 63) \<le> sint x - sint y \<and> sint x - sint y < 2 ^ 63
              \<longrightarrow> sint (subtract int64 x y) = sint x - sint y)
         \<and> (sint x * sint x < 2 ^ 63 \<longrightarrow> sint (square int64 x) = sint x * sint x)
         \<and> (sint x \<noteq> - (2 ^ 63) \<longrightarrow> sint (absolute int64 x) = \<bar>sint x\<bar>)"
    using int64_exact_unless_overflow(1,2,3) by blast
  show ?thesis
    using a b c d e by (intro conjI)
qed

theorem residuals_forms_witness:
  "Prediction_init (PyList [5, 5, 5 :: 64 word]) (Some (PyList [3, 4, 6]))
      = Inr \<lparr>fitted_values = NdArray [5, 5, 5], real_values = Some (NdArray [3, 4, 6])\<rparr>
   \<and> positional (PyList [5, 5, 5 :: 64 word]) (PyList [3, 4, 6])
   \<and> residuals int64 \<lparr>fitted_values = NdArray [5, 5, 5], real_values = Some (NdArray [3, 4, 6])\<rparr>
        False False = Returned [- 2, - 1, 1]
   \<and> residuals int64 \<lparr>fitted_values = NdArray [5, 5, 5], real_values = Some (NdArray [3, 4, 6])\<rparr>
        True False = Returned [4, 1, 1]
   \<and> residuals int64 \<lparr>fitted_values = NdArray [5, 5, 5], real_values = Some (NdArray [3, 4, 6])\<rparr>
        True True = Returned [4, 1, 1]
   \<and> residuals int64 \<lparr>fitted_values = NdArray [5, 5, 5], real_values = Some (NdArray [3, 4, 6])\<rparr>
        False True = Returned [2, 1, 1]
   \<and> sint (subtract int64 3 5) = - 2 \<and> sint (square int64 (- 2)) = 4
   \<and> sint (absolute int64 (- 2)) = 2"
proof -
  let ?p = "\<lparr>fitted_values = NdArray [5, 5, 5 :: 64 word], real_values = Some (NdArray [3, 4, 6])\<rparr>"
  have h: "Prediction_init (PyList [5, 5, 5 :: 64 word]) (Some (PyList [3, 4, 6])) = Inr ?p"
    by (simp add: Prediction_init_Some len_def)
  have pos: "positional (PyList [5, 5, 5 :: 64 word]) (PyList [3, 4, 6])"
    by simp
  note t = residuals_forms [OF h pos, where D = int64]
  have a: "residuals int64 ?p False False = Returned [- 2, - 1, 1]"
    using t [THEN conjunct1] by (simp add: int64_def)
  have b: "residuals int64 ?p True False = Returned [4, 1, 1]"
    using t [where absolute_value = False, THEN conjunct2, THEN conjunct1] by (simp add: int64_def)
  have b': "residuals int64 ?p True True = Returned [4, 1, 1]"
    using t [where absolute_value = True, THEN conjunct2, THEN conjunct1] by (simp add: int64_def)
  have c: "residuals int64 ?p False True = Returned [2, 1, 1]"
    using t [THEN conjunct2, THEN conjunct2, THEN conjunct1] by (simp add: int64_def)
  have e: "sint (subtract int64 3 5) = - 2 \<and> sint (square int64 (- 2)) = 4
   \<and> sint (absolute int64 (- 2)) = 2"
    by (simp add: int64_def)
  show ?thesis
    using h pos a b b' c e by (intro conjI) simp_all
qed

text \<open>
  C4, as stated, on int64 and on Series with different index labels. The residual of
  fitted 0 and real -2^63 is -2^63; its absolute-value form is again -2^63, a negative
  number, and its squared form is 0. The residual of fitted -1 and real 2^63 - 1 is
  -2^63, where the difference of the numbers is 2^63. For fitted [1,2,3] labelled 2, 1, 0
  and real [-1,0,2] labelled 0, 1, 2 the residuals are paired by label, [-4,-2,1], where
  real[i] - fitted[i] by position is [-2,-2,-1].
\<close>

theorem residuals_int64_wrap_and_labels:
  "residuals int64 \<lparr>fitted_values = NdArray [0], real_values = Some (NdArray [- 9223372036854775808])\<rparr>
        False True = Returned [- 9223372036854775808]
   \<and> sint (- 9223372036854775808 :: 64 word) < 0
   \<and> residuals int64 \<lparr>fitted_values = NdArray [- 1], real_values = Some (NdArray [9223372036854775807])\<rparr>
        False False = Returned [- 9223372036854775808]
   \<and> sint (9223372036854775807 :: 64 word) - sint (- 1 :: 64 word) = 9223372036854775808
   \<and> residuals int64 \<lparr>fitted_values = NdArray [0], real_values = Some (NdArray [- 9223372036854775808])\<rparr>
        True False = Returned [0]
   \<and> Prediction_init (Array (Series [(2, 1), (1, 2), (0, 3 :: 64 word)]))
        (Some (Array (Series [(0, - 1), (1, 0), (2, 2)])))
      = Inr \<lparr>fitted_values = Series [(2, 1), (1, 2), (0, 3)],
             real_values = Some (Series [(0, - 1), (1, 0), (2, 2)])\<rparr>
   \<and> residuals int64 \<lparr>fitted_values = Series [(2, 1), (1, 2), (0, 3)],
        real_values = Some (Series [(0, - 1), (1, 0), (2, 2)])\<rparr> False False
      = Returned [- 4, - 2, 1]
   \<and> map2 (\<lambda>r f. r - f) [- 1, 0, 2 :: 64 word] [1, 2, 3] = [- 2, - 2, - 1]"
proof -
  have s: "{0, 1, 2 :: int} = {2, 1, 0}"
    by auto
  show ?thesis
    by (simp add: residuals_def np_sub_def int64_def Prediction_init_Some len_def s)
qed




text \<open>
  C9, amended. For a NumericPrediction built from two sequences of one length that the
  operators pair by position, \<open>percentage_correctly_classified\<close> is the inherited rate of
  exact equality, the mean over the positions i of whether fitted[i] equals real[i]; the
  tolerance of the replaced \<open>matches\<close> plays no part in it. At tolerance 0 the replaced
  \<open>matches\<close> returns the sequence of the equality test, so that the rate is the mean
  of \<open>matches(0)\<close>, on exact integers, and on int64 provided no difference
  real[i] - fitted[i] wraps to -2^63. For a positive tolerance the rate can be strictly
  smaller than the mean of \<open>matches(tolerance)\<close>, as for the int64 data fitted [1,2],
  real [1,3] with tolerance 1.
\<close>

theorem pcc_exact_equality_rate:
  fixes pe :: "('e::linordered_idom) prediction" and pw :: "64 word prediction"
  shows "(Prediction_init fv (Some rv) = Inr p \<and> positional fv rv \<longrightarrow>
            percentage_correctly_classified p
              = Inr (np_mean (map (\<lambda>i. items fv ! i = items rv ! i) [0..<len fv])))
     \<and> (Prediction_init fe (Some re) = Inr pe \<and> positional fe re \<longrightarrow>
            NumericPrediction_matches exact pe 0
              = Returned (map (\<lambda>i. items fe ! i = items re ! i) [0..<len fe]))
     \<and> (Prediction_init fw (Some rw) = Inr pw \<and> positional fw rw
          \<and> (\<forall>i < len fw. sint (items rw ! i - items fw ! i) \<noteq> - (2 ^ 63)) \<longrightarrow>
            NumericPrediction_matches int64 pw 0
              = Returned (map (\<lambda>i. items fw ! i = items rw ! i) [0..<len fw]))
     \<and> (\<exists>fv' rv' tolerance p' bs q q'. sint (0 :: 64 word) < sint tolerance
            \<and> Prediction_init fv' (Some rv') = Inr p' \<and> positional fv' rv'
            \<and> NumericPrediction_matches int64 p' tolerance = Returned bs
            \<and> percentage_correctly_classified p' = Inr (Finite q) \<and> np_mean bs = Finite q'
            \<and> q < q')"
proof -
  have a: "Prediction_init fv (Some rv) = Inr p \<and> positional fv rv \<longrightarrow>
            percentage_correctly_classified p
              = Inr (np_mean (map (\<lambda>i. items fv ! i = items rv ! i) [0..<len fv]))"
  proof
    assume h: "Prediction_init fv (Some rv) = Inr p \<and> positional fv rv"
    then have l: "length (items rv) = length (items fv)"
      using Prediction_init_InrD(1) by (fastforce simp: len_def)
    have "map2 (=) (items rv) (items fv)
        = map (\<lambda>i. items rv ! i = items fv ! i) [0..<length (items rv)]"
      by (rule map2_nth [OF l])
    also have "\<dots> = map (\<lambda>i. items fv ! i = items rv ! i) [0..<len fv]"
      using l by (auto simp: len_def)
    finally show "percentage_correctly_classified p
              = Inr (np_mean (map (\<lambda>i. items fv ! i = items rv ! i) [0..<len fv]))"
      using matches_constructed h by (fastforce simp: percentage_correctly_classified_def matches_def)
  qed
  have b: "Prediction_init fe (Some re) = Inr pe \<and> positional fe re \<longrightarrow>
            NumericPrediction_matches exact pe 0
              = Returned (map (\<lambda>i. items fe ! i = items re ! i) [0..<len fe])"
  proof
    assume h: "Prediction_init fe (Some re) = Inr pe \<and> positional fe re"
    then have l: "length (items re) = length (items fe)"
      using Prediction_init_InrD(1) by (fastforce simp: len_def)
    have s: "np_sub exact (real_values pe) (fitted_values pe)
        = Returned (map2 (subtract exact) (items re) (items fe))"
      using h np_sub_constructed by blast
    have "map (\<lambda>x. less_equal exact (absolute exact x) 0) (map2 (subtract exact) (items re) (items fe))
        = map (\<lambda>i. items fe ! i = items re ! i) [0..<len fe]"
      using l by (auto simp: exact_def len_def intro!: nth_equalityI)
    then show "NumericPrediction_matches exact pe 0
              = Returned (map (\<lambda>i. items fe ! i = items re ! i) [0..<len fe])"
      by (simp add: NumericPrediction_matches_def s)
  qed
  have c: "Prediction_init fw (Some rw) = Inr pw \<and> positional fw rw
          \<and> (\<forall>i < len fw. sint (items rw ! i - items fw ! i) \<noteq> - (2 ^ 63)) \<longrightarrow>
            NumericPrediction_matches int64 pw 0
              = Returned (map (\<lambda>i. items fw ! i = items rw ! i) [0..<len fw])"
  proof
    assume h: "Prediction_init fw (Some rw) = Inr pw \<and> positional fw rw
          \<and> (\<forall>i < len fw. sint (items rw ! i - items fw ! i) \<noteq> - (2 ^ 63))"
    then have l: "length (items rw) = length (items fw)"
      using Prediction_init_InrD(1) by (fastforce simp: len_def)
    have s: "np_sub int64 (real_values pw) (fitted_values pw)
        = Returned (map2 (subtract int64) (items rw) (items fw))"
      using h np_sub_constructed by blast
    have e: "less_equal int64 (absolute int64 (subtract int64 (items rw ! i) (items fw ! i))) 0
        = (items fw ! i = items rw ! i)" if "i < len fw" for i
    proof -
      have "sint (items rw ! i - items fw ! i) \<noteq> - (2 ^ 63)"
        using h that by blast
      then have "less_equal int64 (absolute int64 (items rw ! i - items fw ! i)) 0
          = (items rw ! i - items fw ! i = 0)"
        by (rule int64_abs_le_zero)
      then show ?thesis
        by (auto simp: int64_def)
    qed
    have "map (\<lambda>x. less_equal int64 (absolute int64 x) 0) (map2 (subtract int64) (items rw) (items fw))
        = map (\<lambda>i. items fw ! i = items rw ! i) [0..<len fw]"
    proof (rule nth_equalityI)
      show "length (map (\<lambda>x. less_equal int64 (absolute int64 x) 0)
                (map2 (subtract int64) (items rw) (items fw)))
          = length (map (\<lambda>i. items fw ! i = items rw ! i) [0..<len fw])"
        using l by (simp add: len_def)
    next
      fix i
      assume "i < length (map (\<lambda>x. less_equal int64 (absolute int64 x) 0)
                (map2 (subtract int64) (items rw) (items fw)))"
      then have i: "i < len fw"
        using l by (simp add: len_def)
      then have "i < length (items rw)" "i < length (items fw)"
        using l by (simp_all add: len_def)
      then show "map (\<lambda>x. less_equal int64 (absolute int64 x) 0)
                (map2 (subtract int64) (items rw) (items fw)) ! i
          = map (\<lambda>i. items fw ! i = items rw ! i) [0..<len fw] ! i"
        using e [OF i] i by simp
    qed
    then show "NumericPrediction_matches int64 pw 0
              = Returned (map (\<lambda>i. items fw ! i = items rw ! i) [0..<len fw])"
      by (simp add: NumericPrediction_matches_def s)
  qed
  let ?p = "\<lparr>fitted_values = NdArray [1, 2 :: 64 word], real_values = Some (NdArray [1, 3])\<rparr>"
  have "sint (0 :: 64 word) < sint (1 :: 64 word)
      \<and> Prediction_init (PyList [1, 2 :: 64 word]) (Some (PyList [1, 3])) = Inr ?p
      \<and> positional (PyList [1, 2 :: 64 word]) (PyList [1, 3])
      \<and> NumericPrediction_matches int64 ?p 1 = Returned [True, True]
      \<and> percentage_correctly_classified ?p = Inr (Finite (1 / 2))
      \<and> np_mean [True, True] = Finite 1
      \<and> (1 / 2 :: rat) < 1"
    by (simp add: Prediction_init_Some len_def NumericPrediction_matches_def np_sub_def int64_def
        percentage_correctly_classified_def np_eq_def np_mean_def np_sum_def)
  then have d: "\<exists>fv' rv' tolerance p' bs q q'. sint (0 :: 64 word) < sint tolerance
            \<and> Prediction_init fv' (Some rv') = Inr p' \<and> positional fv' rv'
            \<and> NumericPrediction_matches int64 p' tolerance = Returned bs
            \<and> percentage_correctly_classified p' = Inr (Finite q) \<and> np_mean bs = Finite q'
            \<and> q < q'"
    by blast
  show ?thesis
    using a b c d by (intro conjI)
qed

theorem pcc_exact_equality_rate_witness:
  "Prediction_init (PyList [1, 2 :: 64 word]) (Some (PyList [1, 3]))
      = Inr \<lparr>fitted_values = NdArray [1, 2], real_values = Some (NdArray [1, 3])\<rparr>
   \<and> positional (PyList [1, 2 :: 64 word]) (PyList [1, 3])
   \<and> sint ((1 :: 64 word) - 1) \<noteq> - (2 ^ 63) \<and> sint ((3 :: 64 word) - 2) \<noteq> - (2 ^ 63)
   \<and> Prediction_init (PyList [1, 2 :: int]) (Some (PyList [1, 3]))
      = Inr \<lparr>fitted_values = NdArray [1, 2], real_values = Some (NdArray [1, 3])\<rparr>
   \<and> positional (PyList [1, 2 :: int]) (PyList [1, 3])
   \<and> percentage_correctly_classified
        \<lparr>fitted_values = NdArray [1, 2 :: 64 word], real_values = Some (NdArray [1, 3])\<rparr>
      = Inr (Finite (1 / 2))
   \<and> NumericPrediction_matches exact
        \<lparr>fitted_values = NdArray [1, 2 :: int], real_values = Some (NdArray [1, 3])\<rparr> 0
      = Returned [True, False]
   \<and> NumericPrediction_matches int64
        \<lparr>fitted_values = NdArray [1, 2], real_values = Some (NdArray [1, 3])\<rparr> 0
      = Returned [True, False]
   \<and> NumericPrediction_matches int64
        \<lparr>fitted_values = NdArray [1, 2], real_values = Some (NdArray [1, 3])\<rparr> 1
      = Returned [True, True]
   \<and> np_mean [True, True] = Finite 1"
proof -
  let ?pw = "\<lparr>fitted_values = NdArray [1, 2 :: 64 word], real_values = Some (NdArray [1, 3])\<rparr>"
  let ?pe = "\<lparr>fitted_values = NdArray [1, 2 :: int], real_values = Some (NdArray [1, 3])\<rparr>"
  have hw: "Prediction_init (PyList [1, 2 :: 64 word]) (Some (PyList [1, 3])) = Inr ?pw"
    by (simp add: Prediction_init_Some len_def)
  have posw: "positional (PyList [1, 2 :: 64 word]) (PyList [1, 3])"
    by simp
  have no: "\<forall>i < len (PyList [1, 2 :: 64 word]).
         sint (items (PyList [1, 3 :: 64 word]) ! i - items (PyList [1, 2 :: 64 word]) ! i)
           \<noteq> - (2 ^ 63)"
    by (simp add: len_def less_Suc_eq numeral_2_eq_2)
  have he: "Prediction_init (PyList [1, 2 :: int]) (Some (PyList [1, 3])) = Inr ?pe"
    by (simp add: Prediction_init_Some len_def)
  have pose: "positional (PyList [1, 2 :: int]) (PyList [1, 3])"
    by simp
  note t = pcc_exact_equality_rate [where fv = "PyList [1, 2 :: 64 word]"
      and rv = "PyList [1, 3]" and p = ?pw and fe = "PyList [1, 2 :: int]" and re = "PyList [1, 3]"
      and pe = ?pe and fw = "PyList [1, 2 :: 64 word]" and rw = "PyList [1, 3]" and pw = ?pw]
  have u: "[0..<2] = [0, 1]"
    by (simp add: upt_rec)
  have a: "percentage_correctly_classified ?pw = Inr (Finite (1 / 2))"
    using t [THEN conjunct1, THEN mp, OF conjI [OF hw posw]]
    by (simp add: len_def u np_mean_def np_sum_def)
  have b: "NumericPrediction_matches exact ?pe 0 = Returned [True, False]"
    using t [THEN conjunct2, THEN conjunct1, THEN mp, OF conjI [OF he pose]]
    by (simp add: len_def u)
  have c: "NumericPrediction_matches int64 ?pw 0 = Returned [True, False]"
    using t [THEN conjunct2, THEN conjunct2, THEN conjunct1, THEN mp,
        OF conjI [OF hw conjI [OF posw no]]]
    by (simp add: len_def u)
  have d: "NumericPrediction_matches int64 ?pw 1 = Returned [True, True]"
    by (simp add: NumericPrediction_matches_def np_sub_def int64_def)
  have e: "np_mean [True, True] = Finite 1"
    by (simp add: np_mean_def np_sum_def)
  have n0: "sint ((1 :: 64 word) - 1) \<noteq> - (2 ^ 63)" and n1: "sint ((3 :: 64 word) - 2) \<noteq> - (2 ^ 63)"
    by simp_all
  show ?thesis
    using hw posw n0 n1 he pose a b c d e by (intro conjI)
qed

text \<open>
  C9, as stated, on int64 at fitted -1 and real 2^63 - 1: the two values differ, so the
  rate is 0, but their difference wraps to -2^63, whose int64 absolute value is not
  above 0, so \<open>matches(0)\<close> is [True] with mean 1. And for two Series with different
  index labels the rate is not computed at all: the comparison raises \<^verbatim>\<open>ValueError\<close>.
\<close>

theorem pcc_int64_wrap_and_labels:
  "Prediction_init (PyList [- 1 :: 64 word]) (Some (PyList [9223372036854775807]))
      = Inr \<lparr>fitted_values = NdArray [- 1], real_values = Some (NdArray [9223372036854775807])\<rparr>
   \<and> percentage_correctly_classified
        \<lparr>fitted_values = NdArray [- 1 :: 64 word], real_values = Some (NdArray [9223372036854775807])\<rparr>
      = Inr (Finite 0)
   \<and> NumericPrediction_matches int64
        \<lparr>fitted_values = NdArray [- 1], real_values = Some (NdArray [9223372036854775807])\<rparr> 0
      = Returned [True]
   \<and> np_mean [True] = Finite 1
   \<and> percentage_correctly_classified
        \<lparr>fitted_values = Series [(10, 1), (11, 2), (12, 3 :: 64 word)],
         real_values = Some (Series [(0, 1), (1, 0), (2, 3)])\<rparr>
      = Inl (ValueError ''Can only compare identically-labeled Series objects'')"
  by (simp add: Prediction_init_Some len_def NumericPrediction_matches_def np_sub_def int64_def
      percentage_correctly_classified_def np_eq_def np_mean_def np_sum_def)

text \<open>
  C7. \<open>value_negative\<close> at a numpy array of dtype object that holds the Python strings
  yes, no, no, with positive value yes. The real values contain an element different
  from the positive value, the first being no, but the numpy path asks that element for
  its \<^verbatim>\<open>copy\<close> method, which a Python string lacks, and the accessor raises
  \<^verbatim>\<open>AttributeError\<close>. The Series path returns the element for the same data, and the
  numpy path returns it for a numeric array (the general statement is lemma
  \<open>value_negative_first_other\<close>).
\<close>

theorem value_negative_object_array_raises:
  "BinaryPrediction_init (Array (NdArray [''yes'', ''no'', ''yes'']))
        (Some (Array (NdArray [''yes'', ''no'', ''no'']))) ''yes''
      = Inr \<lparr>fitted_values = NdArray [''yes'', ''no'', ''yes''],
             real_values = Some (NdArray [''yes'', ''no'', ''no'']), value_positive = ''yes''\<rparr>
   \<and> value_negative (\<lambda>x. False) \<lparr>fitted_values = NdArray [''yes'', ''no'', ''yes''],
        real_values = Some (NdArray [''yes'', ''no'', ''no'']), value_positive = ''yes''\<rparr>
      = Inl AttributeError
   \<and> value_negative (\<lambda>x. False) \<lparr>fitted_values = Series [(0, ''yes''), (1, ''no''), (2, ''yes'')],
        real_values = Some (Series [(0, ''yes''), (1, ''no''), (2, ''no'')]),
        value_positive = ''yes''\<rparr>
      = Inr ''no''
   \<and> value_negative (\<lambda>x. True) \<lparr>fitted_values = NdArray [1, 0, 1 :: int],
        real_values = Some (NdArray [1, 0, 0]), value_positive = 1\<rparr>
      = Inr 0"
  by (simp add: BinaryPrediction_init_def Prediction_init_Some len_def value_negative_def)

end
